theory Spec2Isabelle
  imports Complex_Main "HOL-Library.Word"
begin

section \<open>Multi-stage diagnosis: the two-stage classifier of \<open>multi-stage-diagnosis.py\<close>\<close>

text \<open>
  The script chains two TensorFlow-Lite classifiers. \<open>predict\<close> builds an
  interpreter from a model file, loads and normalises an image, runs the model and
  thresholds its scalar output at 0.5; \<open>diagnose\<close> calls \<open>predict\<close> once or
  twice and maps the classes to the labels \<open>'n'\<close>, \<open>'b'\<close>, \<open>'m'\<close>; the
  Tk application hands a path to \<open>diagnose\<close> and displays a text for the label.

  Everything \<open>predict\<close> touches outside the script (the model files, the image files,
  the TensorFlow-Lite runtime, Keras and PIL) is made explicit as a \<open>world\<close> that is
  passed through every call. Each call into a library appends an event to the world's
  trace, so that the order of the calls, and the calls that are never made, can be
  stated. Exceptions are values of type \<open>error\<close>.

  Floating-point numbers (the float32 tensors and the model's output) are idealised as
  real numbers: rounding, infinities and NaN are not modelled.
\<close>

subsection \<open>Data\<close>

type_synonym path = string

text \<open>An RGB pixel with 8 bits per channel, as PIL stores an image of mode \<open>RGB\<close>.\<close>

type_synonym rgb = "8 word \<times> 8 word \<times> 8 word"

text \<open>
  A decoded PIL image: \<open>im_size\<close> is PIL's \<open>Image.size\<close>, the pair (width, height);
  \<open>getpixel\<close> gives the pixel at the coordinate (x, y).
\<close>

record pil_image =
  im_size :: "nat \<times> nat"
  getpixel :: "nat \<times> nat \<Rightarrow> rgb"

text \<open>
  The exceptions that opening, reading and decoding an image file raise, all of Python's
  \<open>OSError\<close> family: no file at the path, a directory at the path, a file that may
  not be opened, a file that PIL does not recognise as an image, and \<open>OSError\<close> itself
  for every other failure of reading or decoding (a truncated image, for one).
\<close>

datatype input_error =
    FileNotFoundError
  | IsADirectoryError
  | PermissionError
  | UnidentifiedImageError
  | OSError

text \<open>
  What lies at an image path: something that cannot be loaded as an image, with the
  exception that loading it raises, or an image (given as decoded and converted to mode
  \<open>RGB\<close>, which \<open>load_img\<close> does with its default \<open>color_mode\<close>). A path with
  no file is \<open>None\<close> in the world.
\<close>

datatype disk_file = Unloadable input_error | Decoded pil_image

text \<open>
  A numpy array: its \<open>shape\<close> and its elements in row-major order.
\<close>

record ndarray =
  arr_shape :: "nat list"
  arr_data :: "real list"

text \<open>
  A model artifact: the shape of its input tensor (\<open>input_details[0]['shape']\<close>) and
  what one inference computes: \<open>run m t\<close> is the entry \<open>[0][0]\<close> of output tensor 0
  after \<open>invoke()\<close> on the input \<open>t\<close>, or \<open>None\<close> when \<open>invoke()\<close> raises.
\<close>

record tflite_model =
  input_shape :: "nat list"
  run :: "ndarray \<Rightarrow> real option"

text \<open>The exceptions of the library calls, named after the Python exception and its origin.\<close>

datatype error =
    ValueError_model            \<comment> \<open>\<open>tf.lite.Interpreter\<close>: model file missing or malformed\<close>
  | InputError input_error      \<comment> \<open>\<open>load_img\<close>, \<open>img_to_array\<close>: the image cannot be read\<close>
  | ValueError_resize           \<comment> \<open>\<open>load_img\<close>: PIL refuses to resize to an empty size\<close>
  | ValueError_set_tensor       \<comment> \<open>\<open>set_tensor\<close>: dimension mismatch\<close>
  | RuntimeError_invoke         \<comment> \<open>\<open>invoke\<close>: the runtime fails\<close>
  | ValueError_get_tensor       \<comment> \<open>\<open>get_tensor\<close>: no output computed yet\<close>

text \<open>One event per library call that \<open>predict\<close> makes, in the order of the calls.\<close>

datatype event =
    NewInterpreter path         \<comment> \<open>\<open>tf.lite.Interpreter(model_path=...)\<close>\<close>
  | AllocateTensors path        \<comment> \<open>\<open>interpreter.allocate_tensors()\<close>\<close>
  | LoadImg path "nat \<times> nat"    \<comment> \<open>\<open>load_img(image_path, target_size=shape)\<close>\<close>
  | SetTensor path ndarray      \<comment> \<open>\<open>interpreter.set_tensor(..., image)\<close>\<close>
  | Invoke path                 \<comment> \<open>\<open>interpreter.invoke()\<close>\<close>
  | GetTensor path              \<comment> \<open>\<open>interpreter.get_tensor(...)\<close>\<close>

text \<open>
  The world: the model files and image files by path, PIL's nearest-neighbour
  resampling (\<open>nearest w img (width, height)\<close> is the pixel function of the resized
  image; its arithmetic is PIL's and is left open), and the trace of library calls.
\<close>

record world =
  model_files :: "path \<Rightarrow> tflite_model option"
  image_files :: "path \<Rightarrow> disk_file option"
  nearest :: "pil_image \<Rightarrow> nat \<times> nat \<Rightarrow> nat \<times> nat \<Rightarrow> rgb"
  trace :: "event list"

text \<open>The interpreter object of one \<open>predict\<close> call, with its input and output slot.\<close>

record interpreter =
  model :: tflite_model
  input_tensor :: "ndarray option"
  output_scalar :: "real option"

subsection \<open>Sequencing of calls that may raise\<close>

type_synonym 'a io = "world \<Rightarrow> (error + 'a) \<times> world"

definition io_return :: "'a \<Rightarrow> 'a io" where
  "io_return x = (\<lambda>w. (Inr x, w))"

text \<open>An exception ends the sequence: the rest is not run.\<close>

definition io_bind :: "'a io \<Rightarrow> ('a \<Rightarrow> 'b io) \<Rightarrow> 'b io" where
  "io_bind m f = (\<lambda>w. case m w of (Inl e, w') \<Rightarrow> (Inl e, w') | (Inr x, w') \<Rightarrow> f x w')"

text \<open>A library call: it is recorded in the trace whether it returns or raises.\<close>

definition call :: "event \<Rightarrow> (world \<Rightarrow> error + 'a) \<Rightarrow> 'a io" where
  "call ev f = (\<lambda>w. (f w, w\<lparr>trace := trace w @ [ev]\<rparr>))"

subsection \<open>The library calls\<close>

text \<open>\<open>tf.lite.Interpreter(model_path=...)\<close>: raises when the file is missing or malformed.\<close>

definition Interpreter :: "world \<Rightarrow> path \<Rightarrow> error + interpreter" where
  "Interpreter w model_path =
     (case model_files w model_path of
        None \<Rightarrow> Inl ValueError_model
      | Some m \<Rightarrow> Inr \<lparr>model = m, input_tensor = None, output_scalar = None\<rparr>)"

text \<open>
  \<open>set_tensor\<close> refuses an array whose shape is not the model's input shape (the
  model's input is taken to be a float tensor, as the array is);
  \<open>invoke\<close> runs the model on the input slot (\<open>predict\<close> always fills it before);
  \<open>get_tensor\<close> followed by \<open>[0][0]\<close> reads the output scalar.
\<close>

definition set_tensor :: "interpreter \<Rightarrow> ndarray \<Rightarrow> error + interpreter" where
  "set_tensor interp tensor =
     (if arr_shape tensor = input_shape (model interp)
      then Inr (interp\<lparr>input_tensor := Some tensor\<rparr>)
      else Inl ValueError_set_tensor)"

definition invoke :: "interpreter \<Rightarrow> error + interpreter" where
  "invoke interp =
     (case input_tensor interp of
        None \<Rightarrow> Inl RuntimeError_invoke
      | Some t \<Rightarrow>
          (case run (model interp) t of
             None \<Rightarrow> Inl RuntimeError_invoke
           | Some p \<Rightarrow> Inr (interp\<lparr>output_scalar := Some p\<rparr>)))"

definition get_tensor :: "interpreter \<Rightarrow> error + real" where
  "get_tensor interp =
     (case output_scalar interp of None \<Rightarrow> Inl ValueError_get_tensor | Some p \<Rightarrow> Inr p)"

text \<open>
  Keras' \<open>load_img(path, target_size=...)\<close> (library code, modelled from its documented
  behaviour): it opens the file with PIL, converts to \<open>RGB\<close>, reads its \<open>target_size\<close> (here \<open>target\<close>) as
  (height, width), and, when the image's size differs from (width, height), resizes it
  with nearest-neighbour resampling. PIL refuses to resize to a size with a zero side.
  PIL decodes lazily, so that a failure of decoding may surface only in the resize or in
  \<open>img_to_array\<close> (line 33); it is raised here, before any later call either way.
\<close>

definition load_img :: "world \<Rightarrow> path \<Rightarrow> nat \<times> nat \<Rightarrow> error + pil_image" where
  "load_img w image_path target =
     (case image_files w image_path of
        None \<Rightarrow> Inl (InputError FileNotFoundError)
      | Some (Unloadable e) \<Rightarrow> Inl (InputError e)
      | Some (Decoded img) \<Rightarrow>
          (let width_height_tuple = (snd target, fst target) in
           if im_size img = width_height_tuple then Inr img
           else if fst width_height_tuple = 0 \<or> snd width_height_tuple = 0
                then Inl ValueError_resize
           else Inr \<lparr>im_size = width_height_tuple,
                     getpixel = nearest w img width_height_tuple\<rparr>))"

text \<open>
  Keras' \<open>img_to_array\<close>: the array of shape (height, width, 3) whose entry (y, x, c) is
  channel c of the pixel at (x, y), as a float.
\<close>

definition channels :: "rgb \<Rightarrow> real list" where
  "channels px = (case px of (r, g, b) \<Rightarrow> [real (unat r), real (unat g), real (unat b)])"

definition img_to_array :: "pil_image \<Rightarrow> ndarray" where
  "img_to_array img =
     (case im_size img of (width, height) \<Rightarrow>
        \<lparr>arr_shape = [height, width, 3],
         arr_data = concat (map (\<lambda>y. concat (map (\<lambda>x. channels (getpixel img (x, y)))
                                       [0..<width])) [0..<height])\<rparr>)"

text \<open>numpy: \<open>a / c\<close> divides every element; \<open>a[np.newaxis, ...]\<close> prepends an axis of length 1.\<close>

definition divide_by :: "ndarray \<Rightarrow> real \<Rightarrow> ndarray" where
  "divide_by a c = a\<lparr>arr_data := map (\<lambda>v. v / c) (arr_data a)\<rparr>"

definition newaxis :: "ndarray \<Rightarrow> ndarray" where
  "newaxis a = a\<lparr>arr_shape := 1 # arr_shape a\<rparr>"

subsection \<open>The script\<close>

text \<open>
  Lines 32 to 34 of \<open>predict\<close>, the image loader and normaliser:
  \<^verbatim>\<open>
    image = load_img(image_path, target_size=shape)
    image = img_to_array(image) / 255.0
    image = image[np.newaxis, ...]
  \<close>
\<close>

definition load_and_normalize :: "path \<Rightarrow> nat \<times> nat \<Rightarrow> ndarray io" where
  "load_and_normalize image_path shape =
     io_bind (call (LoadImg image_path shape) (\<lambda>w. load_img w image_path shape)) (\<lambda>image.
     let image = divide_by (img_to_array image) 255.0;
         image = newaxis image
     in io_return image)"

text \<open>
  \<open>predict(image_path, shape, model_path)\<close>, lines 16 to 39. \<open>get_input_details\<close>
  and \<open>get_output_details\<close> only read the interpreter and are not events.
\<close>

definition predict :: "path \<Rightarrow> nat \<times> nat \<Rightarrow> path \<Rightarrow> int io" where
  "predict image_path shape model_path =
     io_bind (call (NewInterpreter model_path) (\<lambda>w. Interpreter w model_path)) (\<lambda>interpreter.
     io_bind (call (AllocateTensors model_path) (\<lambda>w. Inr ())) (\<lambda>_.
     io_bind (load_and_normalize image_path shape) (\<lambda>image.
     io_bind (call (SetTensor model_path image) (\<lambda>w. set_tensor interpreter image)) (\<lambda>interpreter.
     io_bind (call (Invoke model_path) (\<lambda>w. invoke interpreter)) (\<lambda>interpreter.
     io_bind (call (GetTensor model_path) (\<lambda>w. get_tensor interpreter)) (\<lambda>predictions.
     let predicted_class = (if predictions > 0.5 then 1 else 0)
     in io_return predicted_class))))))"

definition shape1 :: "nat \<times> nat" where "shape1 = (224, 224)"
definition shape2 :: "nat \<times> nat" where "shape2 = (299, 299)"
definition model_1_path :: path where "model_1_path = ''model1.tflite''"
definition model_2_path :: path where "model_2_path = ''model2.tflite''"

text \<open>\<open>diagnose(image_path)\<close>, lines 41 to 63.\<close>

definition diagnose :: "path \<Rightarrow> string io" where
  "diagnose image_path =
     io_bind (predict image_path shape1 model_1_path) (\<lambda>class1.
     if class1 = 1 then io_return ''n''
     else
       io_bind (predict image_path shape2 model_2_path) (\<lambda>class2.
       if class2 = 0 then io_return ''b''
       else io_return ''m''))"

subsection \<open>The application\<close>

text \<open>The two widgets that show text: the loading label and the output area.\<close>

record ui =
  loading_label :: string
  output_text :: string

definition display_loading :: "ui \<Rightarrow> ui" where
  "display_loading u = u\<lparr>loading_label := ''Loading...''\<rparr>"

definition display_output :: "ui \<Rightarrow> string \<Rightarrow> ui" where
  "display_output u text = u\<lparr>loading_label := '''', output_text := text\<rparr>"

text \<open>The chain of comparisons in \<open>run_diagnosis\<close>, lines 135 to 143.\<close>

definition result_text :: "string \<Rightarrow> string" where
  "result_text result =
     (if result = ''n'' then ''Normal''
      else if result = ''b'' then ''Benign''
      else if result = ''m'' then ''Malignant''
      else ''Error'')"

text \<open>
  \<open>run_diagnosis(image_path)\<close> runs on a thread of its own: when \<open>diagnose\<close> raises,
  the thread ends and nothing is displayed.
\<close>

definition run_diagnosis :: "path \<Rightarrow> ui \<Rightarrow> world \<Rightarrow> ui \<times> world" where
  "run_diagnosis image_path u w =
     (case diagnose image_path w of
        (Inl e, w') \<Rightarrow> (u, w')
      | (Inr result, w') \<Rightarrow> (display_output u (result_text result), w'))"

text \<open>Python's \<open>s.split('/')\<close>: the pieces between the slashes, at least one piece.\<close>

fun split_slash :: "string \<Rightarrow> string list" where
  "split_slash [] = [] # []"
| "split_slash (c # cs) =
     (if c = CHR ''/'' then [] # split_slash cs
      else (case split_slash cs of [] \<Rightarrow> (c # []) # [] | p # ps \<Rightarrow> (c # p) # ps))"



subsection \<open>Notions used by the properties\<close>

text \<open>The library calls made while \<open>m\<close> runs from the world \<open>w\<close>.\<close>

definition events_during :: "'a io \<Rightarrow> world \<Rightarrow> event list" where
  "events_during m w = drop (length (trace w)) (trace (snd (m w)))"

text \<open>
  The probability that the model at \<open>model_path\<close> yields for the image at
  \<open>image_path\<close> loaded at \<open>shape\<close>: defined when the model file loads, the image
  loads, the shapes agree and the inference runs.
\<close>

definition model_yields :: "world \<Rightarrow> path \<Rightarrow> nat \<times> nat \<Rightarrow> path \<Rightarrow> real option" where
  "model_yields w image_path shape model_path =
     (case model_files w model_path of
        None \<Rightarrow> None
      | Some m \<Rightarrow>
          (case fst (load_and_normalize image_path shape w) of
             Inl e \<Rightarrow> None
           | Inr t \<Rightarrow> if arr_shape t = input_shape m then run m t else None))"

text \<open>
  The library calls of one \<open>predict\<close> call, written out: the calls up to the one
  that raises, or all six.
\<close>

definition predict_events :: "world \<Rightarrow> path \<Rightarrow> nat \<times> nat \<Rightarrow> path \<Rightarrow> event list" where
  "predict_events w image_path shape model_path =
     (case model_files w model_path of
        None \<Rightarrow> [NewInterpreter model_path]
      | Some m \<Rightarrow>
          NewInterpreter model_path # AllocateTensors model_path # LoadImg image_path shape #
          (case fst (load_and_normalize image_path shape w) of
             Inl e \<Rightarrow> []
           | Inr t \<Rightarrow>
               SetTensor model_path t #
               (if arr_shape t \<noteq> input_shape m then []
                else Invoke model_path #
                  (case run m t of None \<Rightarrow> [] | Some p \<Rightarrow> [GetTensor model_path]))))"

subsection \<open>Example worlds\<close>

text \<open>
  A world for evaluating the script: a one-pixel image staged at
  \<open>./Testing/scan.png\<close> in the directory \<open>./Testing\<close>, two models whose inference
  returns a fixed probability, and a resampling that repeats the top-left pixel.
\<close>

definition one_pixel :: pil_image where
  "one_pixel = \<lparr>im_size = (1, 1), getpixel = (\<lambda>xy. (200, 100, 0))\<rparr>"

definition fixed_model :: "nat \<Rightarrow> real \<Rightarrow> tflite_model" where
  "fixed_model n p = \<lparr>input_shape = [1, n, n, 3], run = (\<lambda>t. Some p)\<rparr>"

definition clinic :: "real \<Rightarrow> real \<Rightarrow> world" where
  "clinic p1 p2 =
     \<lparr>model_files = [model_1_path \<mapsto> fixed_model 224 p1, model_2_path \<mapsto> fixed_model 299 p2],
      image_files = [''./Testing/scan.png'' \<mapsto> Decoded one_pixel,
                     ''./Testing'' \<mapsto> Unloadable IsADirectoryError],
      nearest = (\<lambda>img sz xy. getpixel img (0, 0)),
      trace = []\<rparr>"

text \<open>
  A second world, in which the staged image measures 299 x 299 and has one pixel, at
  (3, 0), of a colour of its own; the resampling takes, for the pixel (x, y) of the
  resized image, the pixel of the source at the coordinates scaled down and rounded
  towards zero.
\<close>

definition speckled :: pil_image where
  "speckled = \<lparr>im_size = (299, 299),
                getpixel = (\<lambda>xy. if xy = (3, 0) then (10, 20, 30) else (200, 100, 0))\<rparr>"

definition floor_nearest :: "pil_image \<Rightarrow> nat \<times> nat \<Rightarrow> nat \<times> nat \<Rightarrow> rgb" where
  "floor_nearest img sz xy =
     getpixel img (fst xy * fst (im_size img) div fst sz, snd xy * snd (im_size img) div snd sz)"

definition ward :: "real \<Rightarrow> real \<Rightarrow> world" where
  "ward p1 p2 =
     \<lparr>model_files = [model_1_path \<mapsto> fixed_model 224 p1, model_2_path \<mapsto> fixed_model 299 p2],
      image_files = [''./Testing/scan.png'' \<mapsto> Decoded speckled],
      nearest = floor_nearest,
      trace = []\<rparr>"

text \<open>A world with no file at all, and an application window that shows nothing yet.\<close>

definition bare :: world where
  "bare = \<lparr>model_files = Map.empty, image_files = Map.empty,
           nearest = (\<lambda>img sz xy. getpixel img (0, 0)), trace = []\<rparr>"

definition blank :: ui where
  "blank = \<lparr>loading_label = [], output_text = []\<rparr>"

section \<open>Properties\<close>

subsection \<open>Sequencing\<close>

lemma io_bind_Inl: "fst (m w) = Inl e \<Longrightarrow> io_bind m f w = (Inl e, snd (m w))"
  by (cases "m w") (simp add: io_bind_def)

lemma io_bind_Inr: "fst (m w) = Inr x \<Longrightarrow> io_bind m f w = f x (snd (m w))"
  by (cases "m w") (simp add: io_bind_def)

subsection \<open>What the calls compute and record\<close>

lemma load_img_trace [simp]: "load_img (w\<lparr>trace := t\<rparr>) = load_img w"
  by (rule ext)+ (simp add: load_img_def Let_def split: option.splits disk_file.splits)

lemma Interpreter_trace [simp]: "Interpreter (w\<lparr>trace := t\<rparr>) = Interpreter w"
  by (rule ext)+ (simp add: Interpreter_def)

lemma load_and_normalize_eq:
  "load_and_normalize image_path shape w =
     (map_sum id (\<lambda>img. newaxis (divide_by (img_to_array img) 255)) (load_img w image_path shape),
      w\<lparr>trace := trace w @ [LoadImg image_path shape]\<rparr>)"
  by (cases "load_img w image_path shape")
     (simp_all add: load_and_normalize_def io_bind_def call_def io_return_def)

lemma load_and_normalize_trace [simp]:
  "fst (load_and_normalize image_path shape (w\<lparr>trace := t\<rparr>)) =
   fst (load_and_normalize image_path shape w)"
  by (simp add: load_and_normalize_eq)

lemma predict_eq:
  "predict image_path shape model_path w =
     (case model_files w model_path of
        None \<Rightarrow> (Inl ValueError_model, w\<lparr>trace := trace w @ [NewInterpreter model_path]\<rparr>)
      | Some m \<Rightarrow>
          (case fst (load_and_normalize image_path shape w) of
             Inl e \<Rightarrow> (Inl e, w\<lparr>trace := trace w @
                 [NewInterpreter model_path, AllocateTensors model_path, LoadImg image_path shape]\<rparr>)
           | Inr t \<Rightarrow>
               if arr_shape t \<noteq> input_shape m
               then (Inl ValueError_set_tensor, w\<lparr>trace := trace w @
                 [NewInterpreter model_path, AllocateTensors model_path, LoadImg image_path shape,
                  SetTensor model_path t]\<rparr>)
               else (case run m t of
                   None \<Rightarrow> (Inl RuntimeError_invoke, w\<lparr>trace := trace w @
                     [NewInterpreter model_path, AllocateTensors model_path, LoadImg image_path shape,
                      SetTensor model_path t, Invoke model_path]\<rparr>)
                 | Some p \<Rightarrow> (Inr (if p > 0.5 then 1 else 0), w\<lparr>trace := trace w @
                     [NewInterpreter model_path, AllocateTensors model_path, LoadImg image_path shape,
                      SetTensor model_path t, Invoke model_path, GetTensor model_path]\<rparr>))))"
  by (simp add: predict_def io_bind_def call_def io_return_def load_and_normalize_eq
        Interpreter_def set_tensor_def invoke_def get_tensor_def
      split: option.splits sum.splits)

lemma predict_events_trace [simp]:
  "predict_events (w\<lparr>trace := t\<rparr>) = predict_events w"
  by (rule ext)+ (simp add: predict_events_def split: option.splits)

lemma snd_predict:
  "snd (predict image_path shape model_path w) =
     w\<lparr>trace := trace w @ predict_events w image_path shape model_path\<rparr>"
  by (simp add: predict_eq predict_events_def split: option.splits sum.splits)

lemma events_predict:
  "events_during (predict image_path shape model_path) w =
     predict_events w image_path shape model_path"
  by (simp add: events_during_def snd_predict)

lemma fst_predict_trace [simp]:
  "fst (predict image_path shape model_path (w\<lparr>trace := t\<rparr>)) =
   fst (predict image_path shape model_path w)"
  by (simp add: predict_eq split: option.splits sum.splits)

lemma model_yields_trace [simp]:
  "model_yields (w\<lparr>trace := t\<rparr>) = model_yields w"
  by (rule ext)+ (simp add: model_yields_def split: option.splits)

lemma predict_class:
  "fst (predict image_path shape model_path w) = Inr c \<Longrightarrow> c = 0 \<or> c = 1"
  by (auto simp: predict_eq split: option.splits sum.splits if_splits)

lemma predict_yields:
  "model_yields w image_path shape model_path = Some p \<Longrightarrow>
   fst (predict image_path shape model_path w) = Inr (if p > 0.5 then 1 else 0)"
  by (auto simp: predict_eq model_yields_def split: option.splits sum.splits if_splits)

lemma diagnose_eq:
  "diagnose image_path w =
     (case fst (predict image_path shape1 model_1_path w) of
        Inl e \<Rightarrow> (Inl e, w\<lparr>trace := trace w @ predict_events w image_path shape1 model_1_path\<rparr>)
      | Inr class1 \<Rightarrow>
          if class1 = 1
          then (Inr ''n'', w\<lparr>trace := trace w @ predict_events w image_path shape1 model_1_path\<rparr>)
          else (case fst (predict image_path shape2 model_2_path w) of
              Inl e \<Rightarrow> (Inl e, w\<lparr>trace := trace w @ predict_events w image_path shape1 model_1_path
                                     @ predict_events w image_path shape2 model_2_path\<rparr>)
            | Inr class2 \<Rightarrow> (Inr (if class2 = 0 then ''b'' else ''m''),
                  w\<lparr>trace := trace w @ predict_events w image_path shape1 model_1_path
                                     @ predict_events w image_path shape2 model_2_path\<rparr>)))"
proof (cases "fst (predict image_path shape1 model_1_path w)")
  case (Inl e)
  then show ?thesis
    by (simp add: diagnose_def io_bind_Inl snd_predict)
next
  case (Inr class1)
  note c1 = this
  show ?thesis
  proof (cases "class1 = 1")
    case True
    with c1 show ?thesis
      by (simp add: diagnose_def io_bind_Inr snd_predict io_return_def)
  next
    case False
    let ?w1 = "w\<lparr>trace := trace w @ predict_events w image_path shape1 model_1_path\<rparr>"
    show ?thesis
    proof (cases "fst (predict image_path shape2 model_2_path w)")
      case (Inl e)
      then have "fst (predict image_path shape2 model_2_path ?w1) = Inl e" by simp
      with c1 False Inl show ?thesis
        by (simp add: diagnose_def io_bind_Inr io_bind_Inl snd_predict)
    next
      case (Inr class2)
      then have "fst (predict image_path shape2 model_2_path ?w1) = Inr class2" by simp
      with c1 False Inr show ?thesis
        by (simp add: diagnose_def io_bind_Inr snd_predict io_return_def)
    qed
  qed
qed

lemma events_diagnose:
  "events_during (diagnose image_path) w =
     predict_events w image_path shape1 model_1_path @
     (if fst (predict image_path shape1 model_1_path w) = Inr 0
      then predict_events w image_path shape2 model_2_path else [])"
  using predict_class [of image_path shape1 model_1_path w]
  by (auto simp: events_during_def diagnose_eq split: sum.splits)

subsection \<open>Further facts about the calls\<close>

lemma paths_distinct [simp]: "model_1_path \<noteq> model_2_path" "model_2_path \<noteq> model_1_path"
  by (simp_all add: model_1_path_def model_2_path_def)

lemma shapes_distinct [simp]: "shape1 \<noteq> shape2" "shape2 \<noteq> shape1"
  by (simp_all add: shape1_def shape2_def)

lemma predict_events_models:
  "NewInterpreter mp' \<in> set (predict_events w image_path shape mp) \<longleftrightarrow> mp' = mp"
  by (auto simp: predict_events_def split: option.splits sum.splits)

lemma predict_events_loads:
  "LoadImg ip' s' \<in> set (predict_events w image_path shape mp) \<Longrightarrow> ip' = image_path \<and> s' = shape"
  by (auto simp: predict_events_def split: option.splits sum.splits if_splits)

lemma predict_Inr_iff:
  "fst (predict image_path shape model_path w) = Inr c \<longleftrightarrow>
   (\<exists>p. model_yields w image_path shape model_path = Some p \<and> c = (if p > 0.5 then 1 else 0))"
  by (auto simp: predict_eq model_yields_def split: option.splits sum.splits if_splits)

lemma load_img_size:
  "load_img w image_path shape = Inr im \<Longrightarrow> im_size im = (snd shape, fst shape)"
  by (auto simp: load_img_def Let_def split: option.splits disk_file.splits if_splits)

lemma load_img_readable:
  "image_files w image_path = Some (Decoded img) \<Longrightarrow> 0 < fst shape \<Longrightarrow> 0 < snd shape \<Longrightarrow>
   \<exists>im. load_img w image_path shape = Inr im"
  by (auto simp: load_img_def Let_def)

lemma arr_shape_tensor:
  "arr_shape (newaxis (divide_by (img_to_array img) c)) =
     [1, snd (im_size img), fst (im_size img), 3]"
  by (simp add: newaxis_def divide_by_def img_to_array_def split: prod.splits)

lemma arr_data_tensor:
  "arr_data (newaxis (divide_by (img_to_array img) c)) =
     map (\<lambda>v. v / c) (arr_data (img_to_array img))"
  by (simp add: newaxis_def divide_by_def)

lemma channels_byte: "v \<in> set (channels px) \<Longrightarrow> \<exists>b :: 8 word. v = real (unat b)"
  by (cases px) (auto simp: channels_def)

lemma length_channels [simp]: "length (channels px) = 3"
  by (cases px) (simp add: channels_def)

lemma arr_data_img_to_array:
  "arr_data (img_to_array img) =
     concat (map (\<lambda>y. concat (map (\<lambda>x. channels (getpixel img (x, y)))
                                [0..<fst (im_size img)])) [0..<snd (im_size img)])"
  by (simp add: img_to_array_def case_prod_beta)

lemma img_to_array_byte:
  "v \<in> set (arr_data (img_to_array img)) \<Longrightarrow> \<exists>b :: 8 word. v = real (unat b)"
proof -
  assume "v \<in> set (arr_data (img_to_array img))"
  then obtain x y where "v \<in> set (channels (getpixel img (x, y)))"
    by (auto simp: arr_data_img_to_array)
  then show ?thesis by (rule channels_byte)
qed

lemma byte_range: "0 \<le> real (unat (b :: 8 word)) / 255 \<and> real (unat b) / 255 \<le> 1"
proof -
  have "unat b < 2 ^ 8" using unsigned_less [of b] by simp
  then have "unat b \<le> 255" by simp
  then have "real (unat b) \<le> real 255" by (rule of_nat_mono)
  moreover have "0 \<le> real (unat b)" by (rule of_nat_0_le_iff)
  ultimately show ?thesis by simp
qed

lemma length_concat_uniform:
  "(\<And>i. i < n \<Longrightarrow> length (f i) = k) \<Longrightarrow> length (concat (map f [0..<n])) = n * k"
  by (induction n) simp_all

lemma nth_concat_uniform:
  "(\<And>i. i < n \<Longrightarrow> length (f i) = k) \<Longrightarrow> i < n \<Longrightarrow> j < k \<Longrightarrow>
   concat (map f [0..<n]) ! (i * k + j) = f i ! j"
proof (induction n)
  case 0
  then show ?case by simp
next
  case (Suc n)
  have len: "length (concat (map f [0..<n])) = n * k"
    using Suc.prems(1) by (simp add: length_concat_uniform)
  show ?case
  proof (cases "i < n")
    case True
    then have "Suc i * k \<le> n * k"
      by (intro mult_le_mono1) simp
    moreover have "i * k + j < Suc i * k"
      using Suc.prems(3) by simp
    ultimately have "i * k + j < n * k" by (rule less_le_trans [rotated])
    with True Suc show ?thesis by (simp add: nth_append len)
  next
    case False
    with Suc.prems have "i = n" by simp
    then show ?thesis by (simp add: nth_append len)
  qed
qed

lemma length_img_to_array:
  "length (arr_data (img_to_array img)) = snd (im_size img) * (fst (im_size img) * 3)"
  by (simp add: img_to_array_def length_concat_uniform split: prod.splits)

lemma nth_img_to_array:
  assumes "y < snd (im_size img)" "x < fst (im_size img)" "c < 3"
  shows "arr_data (img_to_array img) ! (y * (fst (im_size img) * 3) + (x * 3 + c)) =
         channels (getpixel img (x, y)) ! c"
proof -
  obtain wd ht where sz: "im_size img = (wd, ht)" by (cases "im_size img")
  let ?row = "\<lambda>y. concat (map (\<lambda>x. channels (getpixel img (x, y))) [0..<wd])"
  have rowlen: "\<And>y. length (?row y) = wd * 3"
    by (simp add: length_concat_uniform)
  have "x * 3 + c < wd * 3" using assms sz by simp
  then have "concat (map ?row [0..<ht]) ! (y * (wd * 3) + (x * 3 + c)) = ?row y ! (x * 3 + c)"
    using assms sz rowlen by (intro nth_concat_uniform) simp_all
  also have "\<dots> = channels (getpixel img (x, y)) ! c"
    using assms sz by (intro nth_concat_uniform) simp_all
  finally show ?thesis by (simp add: img_to_array_def sz)
qed

lemma tensor_unit_interval:
  "v \<in> set (arr_data (newaxis (divide_by (img_to_array img) 255))) \<Longrightarrow> 0 \<le> v \<and> v \<le> 1"
proof -
  assume "v \<in> set (arr_data (newaxis (divide_by (img_to_array img) 255)))"
  then obtain r where r: "r \<in> set (arr_data (img_to_array img))" and v: "v = r / 255"
    by (auto simp: arr_data_tensor)
  from r obtain b :: "8 word" where "r = real (unat b)"
    using img_to_array_byte by blast
  with v show ?thesis using byte_range [of b] by simp
qed

lemma clinic_load:
  "load_img (clinic p1 p2) ''./Testing/scan.png'' (h, w) =
     (if (w, h) = (1, 1) then Inr one_pixel
      else if w = 0 \<or> h = 0 then Inl ValueError_resize
      else Inr \<lparr>im_size = (w, h), getpixel = (\<lambda>xy. (200, 100, 0))\<rparr>)"
  by (simp add: load_img_def clinic_def one_pixel_def Let_def)

lemma split_slash_nonempty [simp]: "split_slash s \<noteq> []"
  by (induction s) (auto split: list.splits)







lemma diagnose_normal:
  "model_yields w image_path shape1 model_1_path = Some p1 \<Longrightarrow> p1 > 0.5 \<Longrightarrow>
   fst (diagnose image_path w) = Inr ''n''"
  by (auto simp: diagnose_eq dest!: predict_yields)

lemma clinic_yields1:
  "model_yields (clinic p1 p2) ''./Testing/scan.png'' shape1 model_1_path = Some p1"
proof -
  have m: "model_files (clinic p1 p2) model_1_path = Some (fixed_model 224 p1)"
    by (simp add: clinic_def)
  have "\<exists>t. fst (load_and_normalize ''./Testing/scan.png'' shape1 (clinic p1 p2)) = Inr t
          \<and> arr_shape t = [1, 224, 224, 3]"
    by (simp add: load_and_normalize_eq shape1_def clinic_load arr_shape_tensor)
  then show ?thesis
    by (auto simp: model_yields_def m fixed_model_def)
qed

lemma clinic_yields2:
  "model_yields (clinic p1 p2) ''./Testing/scan.png'' shape2 model_2_path = Some p2"
proof -
  have m: "model_files (clinic p1 p2) model_2_path = Some (fixed_model 299 p2)"
    by (simp add: clinic_def)
  have "\<exists>t. fst (load_and_normalize ''./Testing/scan.png'' shape2 (clinic p1 p2)) = Inr t
          \<and> arr_shape t = [1, 299, 299, 3]"
    by (simp add: load_and_normalize_eq shape2_def clinic_load arr_shape_tensor)
  then show ?thesis
    by (auto simp: model_yields_def m fixed_model_def)
qed




lemma tensor_shape:
  "fst (load_and_normalize image_path shape w) = Inr t \<Longrightarrow>
   arr_shape t = [1, fst shape, snd shape, 3]"
  by (cases "load_img w image_path shape")
     (auto simp: load_and_normalize_eq arr_shape_tensor dest: load_img_size)

lemma predict_events_class:
  "fst (predict image_path shape model_path w) = Inr c \<Longrightarrow>
   \<exists>t. fst (load_and_normalize image_path shape w) = Inr t \<and>
       predict_events w image_path shape model_path =
         [NewInterpreter model_path, AllocateTensors model_path, LoadImg image_path shape,
          SetTensor model_path t, Invoke model_path, GetTensor model_path]"
  by (auto simp: predict_eq predict_events_def split: option.splits sum.splits if_splits)

lemma predict_events_set_tensor:
  "SetTensor mp t \<in> set (predict_events w image_path shape model_path) \<Longrightarrow>
   mp = model_path \<and> fst (load_and_normalize image_path shape w) = Inr t \<and>
   (\<exists>post. predict_events w image_path shape model_path =
      [NewInterpreter model_path, AllocateTensors model_path, LoadImg image_path shape,
       SetTensor model_path t] @ post)"
  by (auto simp: predict_events_def split: option.splits sum.splits if_splits)

lemma clinic_class1:
  "fst (predict ''./Testing/scan.png'' shape1 model_1_path (clinic p1 p2)) =
     Inr (if p1 > 0.5 then 1 else 0)"
  by (rule predict_yields [OF clinic_yields1])

lemma clinic_class2:
  "fst (predict ''./Testing/scan.png'' shape2 model_2_path (clinic p1 p2)) =
     Inr (if p2 > 0.5 then 1 else 0)"
  by (rule predict_yields [OF clinic_yields2])

lemma clinic_stage2_tensor:
  "p1 \<le> 0.5 \<Longrightarrow>
   \<exists>t. SetTensor model_2_path t \<in> set (events_during (diagnose ''./Testing/scan.png'') (clinic p1 p2))"
proof -
  assume "p1 \<le> 0.5"
  then have c: "fst (predict ''./Testing/scan.png'' shape1 model_1_path (clinic p1 p2)) = Inr 0"
    by (simp add: clinic_class1)
  obtain t where "predict_events (clinic p1 p2) ''./Testing/scan.png'' shape2 model_2_path =
         [NewInterpreter model_2_path, AllocateTensors model_2_path, LoadImg ''./Testing/scan.png'' shape2,
          SetTensor model_2_path t, Invoke model_2_path, GetTensor model_2_path]"
    using predict_events_class [OF clinic_class2] by blast
  with c show ?thesis by (auto simp: events_diagnose)
qed

lemma tensor_nth:
  assumes "y < snd (im_size im)" "x < fst (im_size im)" "c < 3"
  shows "arr_data (newaxis (divide_by (img_to_array im) 255)) ! ((y * fst (im_size im) + x) * 3 + c) =
         channels (getpixel im (x, y)) ! c / 255"
proof -
  have eq: "(y * fst (im_size im) + x) * 3 + c = y * (fst (im_size im) * 3) + (x * 3 + c)"
    by (simp add: algebra_simps)
  have "x * 3 + c < fst (im_size im) * 3" using assms by simp
  moreover have "Suc y * (fst (im_size im) * 3) \<le> snd (im_size im) * (fst (im_size im) * 3)"
    using assms by (intro mult_le_mono1) simp
  ultimately have "y * (fst (im_size im) * 3) + (x * 3 + c) < snd (im_size im) * (fst (im_size im) * 3)"
    by simp
  then have "y * (fst (im_size im) * 3) + (x * 3 + c) < length (arr_data (img_to_array im))"
    by (simp add: length_img_to_array)
  then have "arr_data (newaxis (divide_by (img_to_array im) 255)) ! (y * (fst (im_size im) * 3) + (x * 3 + c)) =
             arr_data (img_to_array im) ! (y * (fst (im_size im) * 3) + (x * 3 + c)) / 255"
    by (simp add: arr_data_tensor)
  also have "\<dots> = channels (getpixel im (x, y)) ! c / 255"
    using assms by (simp only: nth_img_to_array)
  finally show ?thesis by (simp only: eq)
qed

lemma ward_load1:
  "load_img (ward p1 p2) ''./Testing/scan.png'' shape1 =
     Inr \<lparr>im_size = (224, 224), getpixel = floor_nearest speckled (224, 224)\<rparr>"
  by (simp add: load_img_def ward_def speckled_def shape1_def Let_def)

lemma ward_load2:
  "load_img (ward p1 p2) ''./Testing/scan.png'' shape2 = Inr speckled"
  by (simp add: load_img_def ward_def speckled_def shape2_def Let_def)

lemma ward_yields1:
  "model_yields (ward p1 p2) ''./Testing/scan.png'' shape1 model_1_path = Some p1"
proof -
  have m: "model_files (ward p1 p2) model_1_path = Some (fixed_model 224 p1)"
    by (simp add: ward_def)
  have "\<exists>t. fst (load_and_normalize ''./Testing/scan.png'' shape1 (ward p1 p2)) = Inr t
          \<and> arr_shape t = [1, 224, 224, 3]"
    by (simp add: load_and_normalize_eq ward_load1 arr_shape_tensor)
  then show ?thesis
    by (auto simp: model_yields_def m fixed_model_def)
qed

lemma ward_yields2:
  "model_yields (ward p1 p2) ''./Testing/scan.png'' shape2 model_2_path = Some p2"
proof -
  have m: "model_files (ward p1 p2) model_2_path = Some (fixed_model 299 p2)"
    by (simp add: ward_def)
  have "\<exists>t. fst (load_and_normalize ''./Testing/scan.png'' shape2 (ward p1 p2)) = Inr t
          \<and> arr_shape t = [1, 299, 299, 3]"
    by (simp add: load_and_normalize_eq ward_load2 arr_shape_tensor) (simp add: speckled_def)
  then show ?thesis
    by (auto simp: model_yields_def m fixed_model_def)
qed

lemma ward_stage2_tensor:
  "p1 \<le> 0.5 \<Longrightarrow>
   \<exists>t. SetTensor model_2_path t \<in> set (events_during (diagnose ''./Testing/scan.png'') (ward p1 p2))"
proof -
  assume "p1 \<le> 0.5"
  then have c: "fst (predict ''./Testing/scan.png'' shape1 model_1_path (ward p1 p2)) = Inr 0"
    using predict_yields [OF ward_yields1, of p1 p2] by simp
  obtain t where "predict_events (ward p1 p2) ''./Testing/scan.png'' shape2 model_2_path =
         [NewInterpreter model_2_path, AllocateTensors model_2_path, LoadImg ''./Testing/scan.png'' shape2,
          SetTensor model_2_path t, Invoke model_2_path, GetTensor model_2_path]"
    using predict_events_class [OF predict_yields [OF ward_yields2]] by blast
  with c show ?thesis by (auto simp: events_diagnose)
qed

lemma skip3: "(x::nat) * 299 div 224 \<noteq> 3"
proof
  assume "x * 299 div 224 = 3"
  then have lo: "3 * 224 \<le> x * 299" and hi: "x * 299 < 4 * 224"
    by (simp_all add: div_nat_eqI less_mult_imp_div_less)
  show False
  proof (cases "x \<le> 2")
    case True
    then have "x * 299 \<le> 2 * 299" by (rule mult_le_mono1)
    with lo show False by simp
  next
    case False
    then have "3 \<le> x" by simp
    then have "3 * 299 \<le> x * 299" by (rule mult_le_mono1)
    with hi show False by simp
  qed
qed

lemma coarse_pixel:
  "floor_nearest speckled (224, 224) (x, y) = (200, 100, 0)"
  by (simp add: floor_nearest_def speckled_def skip3)

lemma uniform_values:
  assumes "\<And>x y. getpixel im (x, y) = px" and "v \<in> set (arr_data (img_to_array im))"
  shows "v \<in> set (channels px)"
proof -
  from assms(2) obtain x y where "v \<in> set (channels (getpixel im (x, y)))"
    by (auto simp: arr_data_img_to_array)
  with assms(1) show ?thesis by simp
qed

lemma coarse_values:
  "v \<in> set (arr_data (img_to_array
        \<lparr>im_size = (224, 224), getpixel = floor_nearest speckled (224, 224)\<rparr>)) \<Longrightarrow>
   v = 200 \<or> v = 100 \<or> v = 0"
proof -
  assume "v \<in> set (arr_data (img_to_array
        \<lparr>im_size = (224, 224), getpixel = floor_nearest speckled (224, 224)\<rparr>))"
  then have "v \<in> set (channels (200, 100, 0))"
    by (rule uniform_values [rotated]) (simp add: coarse_pixel)
  then show ?thesis by (auto simp: channels_def)
qed

section \<open>The claims\<close>

text \<open>
  Claim C1. For every image path and every world, \<open>diagnose\<close> makes the second
  \<open>predict\<close> call if and only if the first call returned class 0, which is the case
  exactly when model 1 yields a probability of at most 0.5. When it does, the library
  calls of \<open>diagnose\<close> are those of the first \<open>predict\<close> call followed by all
  those of \<open>predict\<close> on the same image path with \<open>shape2\<close> and the second model,
  and what \<open>diagnose\<close> returns is decided by that second call: its exception, or
  \<open>'b'\<close> for class 0 and \<open>'m'\<close> otherwise, never \<open>'n'\<close>. The second interpreter
  is constructed exactly in that case, and the image is loaded again, at the stage-2
  resolution, exactly in that case when the second model file loads. When the first call
  returns class 1 (exactly when model 1 yields more than 0.5), \<open>diagnose\<close> returns
  \<open>'n'\<close> and its library calls are those of the first \<open>predict\<close> call alone:
  neither the second model nor the second image load is touched. When the first call
  raises, \<open>diagnose\<close> raises the same exception after the same calls.
\<close>

theorem stage2_iff_class0:
  "(NewInterpreter model_2_path \<in> set (events_during (diagnose image_path) w)
      \<longleftrightarrow> fst (predict image_path shape1 model_1_path w) = Inr 0)
   \<and> (LoadImg image_path shape2 \<in> set (events_during (diagnose image_path) w)
      \<longrightarrow> fst (predict image_path shape1 model_1_path w) = Inr 0)
   \<and> (fst (predict image_path shape1 model_1_path w) = Inr 0
      \<longleftrightarrow> (\<exists>p1. model_yields w image_path shape1 model_1_path = Some p1 \<and> p1 \<le> 0.5))
   \<and> (fst (predict image_path shape1 model_1_path w) = Inr 1
      \<longleftrightarrow> (\<exists>p1. model_yields w image_path shape1 model_1_path = Some p1 \<and> p1 > 0.5))
   \<and> (fst (predict image_path shape1 model_1_path w) = Inr 1 \<longrightarrow>
        fst (diagnose image_path w) = Inr ''n''
        \<and> events_during (diagnose image_path) w = events_during (predict image_path shape1 model_1_path) w
        \<and> NewInterpreter model_2_path \<notin> set (events_during (diagnose image_path) w)
        \<and> LoadImg image_path shape2 \<notin> set (events_during (diagnose image_path) w))
   \<and> (fst (predict image_path shape1 model_1_path w) = Inr 0 \<longrightarrow>
        diagnose image_path w =
          (case predict image_path shape2 model_2_path
                  (snd (predict image_path shape1 model_1_path w)) of
             (Inl e, w2) \<Rightarrow> (Inl e, w2)
           | (Inr class2, w2) \<Rightarrow> (Inr (if class2 = 0 then ''b'' else ''m''), w2))
        \<and> events_during (diagnose image_path) w =
            events_during (predict image_path shape1 model_1_path) w @
            events_during (predict image_path shape2 model_2_path)
              (snd (predict image_path shape1 model_1_path w))
        \<and> take 2 (events_during (predict image_path shape2 model_2_path)
              (snd (predict image_path shape1 model_1_path w))) =
            (if model_files w model_2_path = None then [NewInterpreter model_2_path]
             else [NewInterpreter model_2_path, AllocateTensors model_2_path])
        \<and> fst (diagnose image_path w) \<noteq> Inr ''n'')
   \<and> (LoadImg image_path shape2 \<in> set (events_during (diagnose image_path) w)
      \<longleftrightarrow> fst (predict image_path shape1 model_1_path w) = Inr 0
          \<and> model_files w model_2_path \<noteq> None)
   \<and> (\<forall>e. fst (predict image_path shape1 model_1_path w) = Inl e \<longrightarrow>
        fst (diagnose image_path w) = Inl e
        \<and> events_during (diagnose image_path) w =
            events_during (predict image_path shape1 model_1_path) w)"
proof -
  let ?c1 = "fst (predict image_path shape1 model_1_path w)"
  let ?w1 = "snd (predict image_path shape1 model_1_path w)"
  let ?evs = "events_during (diagnose image_path) w"
  have a: "NewInterpreter model_2_path \<in> set ?evs \<longleftrightarrow> ?c1 = Inr 0"
    by (simp add: events_diagnose predict_events_models)
  have b: "LoadImg image_path shape2 \<in> set ?evs \<longrightarrow> ?c1 = Inr 0"
    by (auto simp: events_diagnose dest: predict_events_loads)
  have c: "?c1 = Inr 0 \<longleftrightarrow> (\<exists>p1. model_yields w image_path shape1 model_1_path = Some p1 \<and> p1 \<le> 0.5)"
    by (auto simp: predict_Inr_iff not_less split: if_splits)
  have d: "?c1 = Inr 1 \<longleftrightarrow> (\<exists>p1. model_yields w image_path shape1 model_1_path = Some p1 \<and> p1 > 0.5)"
    by (auto simp: predict_Inr_iff split: if_splits)
  have e: "?c1 = Inr 1 \<longrightarrow> fst (diagnose image_path w) = Inr ''n''
        \<and> ?evs = events_during (predict image_path shape1 model_1_path) w
        \<and> NewInterpreter model_2_path \<notin> set ?evs
        \<and> LoadImg image_path shape2 \<notin> set ?evs"
    by (auto simp: events_diagnose events_predict diagnose_eq predict_events_models
             dest: predict_events_loads)
  have pe: "predict_events ?w1 = predict_events w"
    by (simp add: snd_predict)
  have ev2: "events_during (predict image_path shape2 model_2_path) ?w1 =
             predict_events w image_path shape2 model_2_path"
    by (simp add: events_predict pe)
  have f1: "?c1 = Inr 0 \<longrightarrow>
        diagnose image_path w =
          (case predict image_path shape2 model_2_path ?w1 of
             (Inl e, w2) \<Rightarrow> (Inl e, w2)
           | (Inr class2, w2) \<Rightarrow> (Inr (if class2 = 0 then ''b'' else ''m''), w2))"
  proof
    assume c0: "?c1 = Inr 0"
    then have "diagnose image_path w =
        io_bind (predict image_path shape2 model_2_path)
          (\<lambda>class2. if class2 = 0 then io_return ''b'' else io_return ''m'') ?w1"
      by (simp add: diagnose_def io_bind_Inr)
    then show "diagnose image_path w =
          (case predict image_path shape2 model_2_path ?w1 of
             (Inl e, w2) \<Rightarrow> (Inl e, w2)
           | (Inr class2, w2) \<Rightarrow> (Inr (if class2 = 0 then ''b'' else ''m''), w2))"
      by (simp add: io_bind_def io_return_def split: prod.splits sum.splits)
  qed
  have f2: "?c1 = Inr 0 \<longrightarrow> ?evs = events_during (predict image_path shape1 model_1_path) w @
            events_during (predict image_path shape2 model_2_path) ?w1"
    by (simp add: events_diagnose events_predict pe)
  have f3: "take 2 (events_during (predict image_path shape2 model_2_path) ?w1) =
            (if model_files w model_2_path = None then [NewInterpreter model_2_path]
             else [NewInterpreter model_2_path, AllocateTensors model_2_path])"
    by (auto simp: ev2 predict_events_def split: option.splits)
  have f4: "?c1 = Inr 0 \<longrightarrow> fst (diagnose image_path w) \<noteq> Inr ''n''"
    by (auto simp: diagnose_eq split: sum.splits)
  have g: "LoadImg image_path shape2 \<in> set ?evs \<longleftrightarrow> ?c1 = Inr 0 \<and> model_files w model_2_path \<noteq> None"
  proof -
    have "LoadImg image_path shape2 \<notin> set (predict_events w image_path shape1 model_1_path)"
      by (auto dest: predict_events_loads)
    moreover have "LoadImg image_path shape2 \<in> set (predict_events w image_path shape2 model_2_path)
          \<longleftrightarrow> model_files w model_2_path \<noteq> None"
      by (auto simp: predict_events_def split: option.splits)
    ultimately show ?thesis by (auto simp: events_diagnose)
  qed
  have h: "\<forall>e. ?c1 = Inl e \<longrightarrow> fst (diagnose image_path w) = Inl e
        \<and> ?evs = events_during (predict image_path shape1 model_1_path) w"
    by (auto simp: diagnose_eq events_diagnose events_predict)
  from a b c d e f1 f2 f3 f4 g h show ?thesis by blast
qed

text \<open>
  The theorem at two worlds: model 1 yields 0.6 (class 1, label \<open>'n'\<close>, no stage 2),
  and model 1 yields 0.3 (class 0: stage 2 is invoked, the image is loaded again at the
  stage-2 resolution, and the label is not \<open>'n'\<close>).
\<close>

theorem stage2_iff_class0_witness:
  "fst (predict ''./Testing/scan.png'' shape1 model_1_path (clinic 0.6 0.2)) = Inr 1
   \<and> fst (diagnose ''./Testing/scan.png'' (clinic 0.6 0.2)) = Inr ''n''
   \<and> NewInterpreter model_2_path
        \<notin> set (events_during (diagnose ''./Testing/scan.png'') (clinic 0.6 0.2))
   \<and> LoadImg ''./Testing/scan.png'' shape2
        \<notin> set (events_during (diagnose ''./Testing/scan.png'') (clinic 0.6 0.2))
   \<and> fst (predict ''./Testing/scan.png'' shape1 model_1_path (clinic 0.3 0.2)) = Inr 0
   \<and> NewInterpreter model_2_path
        \<in> set (events_during (diagnose ''./Testing/scan.png'') (clinic 0.3 0.2))
   \<and> LoadImg ''./Testing/scan.png'' shape2
        \<in> set (events_during (diagnose ''./Testing/scan.png'') (clinic 0.3 0.2))
   \<and> fst (diagnose ''./Testing/scan.png'' (clinic 0.3 0.2)) \<noteq> Inr ''n''"
proof -
  have a: "fst (predict ''./Testing/scan.png'' shape1 model_1_path (clinic 0.6 0.2)) = Inr 1"
    by (simp add: clinic_class1)
  have b: "fst (predict ''./Testing/scan.png'' shape1 model_1_path (clinic 0.3 0.2)) = Inr 0"
    by (simp add: clinic_class1)
  have m: "model_files (clinic 0.3 0.2) model_2_path \<noteq> None"
    by (simp add: clinic_def)
  from stage2_iff_class0 [of "''./Testing/scan.png''" "clinic 0.6 0.2"]
       stage2_iff_class0 [of "''./Testing/scan.png''" "clinic 0.3 0.2"] a b m
  show ?thesis by blast
qed

text \<open>
  Claim C2. When model 1 yields a probability of at most 0.5 for the image, \<open>diagnose\<close>
  returns \<open>'b'\<close> if model 2 yields at most 0.5 and \<open>'m'\<close> if model 2 yields more
  than 0.5.
\<close>

theorem stage2_label:
  "model_yields w image_path shape1 model_1_path = Some p1 \<Longrightarrow> p1 \<le> 0.5 \<Longrightarrow>
   model_yields w image_path shape2 model_2_path = Some p2 \<Longrightarrow>
   (p2 \<le> 0.5 \<longrightarrow> fst (diagnose image_path w) = Inr ''b'') \<and>
   (p2 > 0.5 \<longrightarrow> fst (diagnose image_path w) = Inr ''m'')"
  by (auto simp: diagnose_eq dest!: predict_yields split: if_splits)

text \<open>
  The theorem where the models yield 0.3 and 0.2 (benign), and 0.1 and 0.9 (malignant).
\<close>

theorem stage2_label_witness:
  "model_yields (clinic 0.3 0.2) ''./Testing/scan.png'' shape1 model_1_path = Some 0.3
   \<and> model_yields (clinic 0.3 0.2) ''./Testing/scan.png'' shape2 model_2_path = Some 0.2
   \<and> fst (diagnose ''./Testing/scan.png'' (clinic 0.3 0.2)) = Inr ''b''
   \<and> model_yields (clinic 0.1 0.9) ''./Testing/scan.png'' shape1 model_1_path = Some 0.1
   \<and> model_yields (clinic 0.1 0.9) ''./Testing/scan.png'' shape2 model_2_path = Some 0.9
   \<and> fst (diagnose ''./Testing/scan.png'' (clinic 0.1 0.9)) = Inr ''m''"
  using stage2_label [OF clinic_yields1 [of "0.3" "0.2"] _ clinic_yields2 [of "0.3" "0.2"]]
        stage2_label [OF clinic_yields1 [of "0.1" "0.9"] _ clinic_yields2 [of "0.1" "0.9"]]
  by (simp add: clinic_yields1 clinic_yields2)

text \<open>
  Claim C3. The threshold is a strict comparison in every \<open>predict\<close> call, whatever
  the model and the resolution: a probability of exactly 0.5 gives class 0, class 1 is
  returned exactly for probabilities above 0.5. So when model 1 yields exactly 0.5,
  \<open>diagnose\<close> goes on to stage 2 and does not return \<open>'n'\<close>, and when both models
  yield exactly 0.5 it returns \<open>'b'\<close>.
\<close>

theorem threshold_strict:
  "(model_yields w image_path shape model_path = Some 0.5 \<longrightarrow>
      fst (predict image_path shape model_path w) = Inr 0)
   \<and> (model_yields w image_path shape model_path = Some p \<longrightarrow>
      (fst (predict image_path shape model_path w) = Inr 1 \<longleftrightarrow> p > 0.5) \<and>
      (fst (predict image_path shape model_path w) = Inr 0 \<longleftrightarrow> p \<le> 0.5))
   \<and> (model_yields w image_path shape1 model_1_path = Some 0.5 \<longrightarrow>
      NewInterpreter model_2_path \<in> set (events_during (diagnose image_path) w)
      \<and> fst (diagnose image_path w) \<noteq> Inr ''n'')
   \<and> (model_yields w image_path shape1 model_1_path = Some 0.5 \<and>
      model_yields w image_path shape2 model_2_path = Some 0.5 \<longrightarrow>
      fst (diagnose image_path w) = Inr ''b'')"
  by (auto simp: diagnose_eq events_diagnose predict_events_models dest!: predict_yields
           split: if_splits sum.splits)

text \<open>
  The theorem in the world where both models yield exactly 0.5.
\<close>

theorem threshold_strict_witness:
  "model_yields (clinic 0.5 0.5) ''./Testing/scan.png'' shape1 model_1_path = Some 0.5
   \<and> model_yields (clinic 0.5 0.5) ''./Testing/scan.png'' shape2 model_2_path = Some 0.5
   \<and> fst (predict ''./Testing/scan.png'' shape1 model_1_path (clinic 0.5 0.5)) = Inr 0
   \<and> fst (predict ''./Testing/scan.png'' shape2 model_2_path (clinic 0.5 0.5)) = Inr 0
   \<and> NewInterpreter model_2_path
        \<in> set (events_during (diagnose ''./Testing/scan.png'') (clinic 0.5 0.5))
   \<and> fst (diagnose ''./Testing/scan.png'' (clinic 0.5 0.5)) = Inr ''b''"
  using threshold_strict [of "clinic 0.5 0.5" "''./Testing/scan.png''" shape1 model_1_path "0.5"]
        threshold_strict [of "clinic 0.5 0.5" "''./Testing/scan.png''" shape2 model_2_path "0.5"]
  by (simp add: clinic_yields1 clinic_yields2)

text \<open>
  Claim C4, amended. \<open>predict\<close> hands its \<open>shape\<close> unchanged to \<open>load_img\<close>
  as \<open>target_size\<close>, which reads the pair as (height, width). For every readable image
  file and every \<open>shape\<close> with positive entries, the loader returns a tensor of shape
  \<open>(1, shape[0], shape[1], 3)\<close>, that is (1, height, width, 3) for
  \<open>shape = (height, width)\<close>, with \<open>shape[0] * shape[1] * 3\<close> elements. The element
  at (0, y, x, c) is channel c of the pixel (x, y) of the loaded image divided by 255;
  the raw intensities are 8-bit values, so every element lies between 0 and 1. For the
  square shapes that \<open>diagnose\<close> uses the order of height and width does not matter.
\<close>

theorem loader_contract:
  assumes "image_files w image_path = Some (Decoded img)"
      and "0 < fst shape" and "0 < snd shape"
  shows "\<exists>t im. fst (load_and_normalize image_path shape w) = Inr t
           \<and> load_img w image_path shape = Inr im
           \<and> im_size im = (snd shape, fst shape)
           \<and> arr_shape t = [1, fst shape, snd shape, 3]
           \<and> length (arr_data t) = 1 * fst shape * snd shape * 3
           \<and> arr_data t = map (\<lambda>v. v / 255) (arr_data (img_to_array im))
           \<and> (\<forall>y < fst shape. \<forall>x < snd shape. \<forall>c < 3.
                 arr_data t ! ((y * snd shape + x) * 3 + c) =
                 channels (getpixel im (x, y)) ! c / 255)
           \<and> (\<forall>v \<in> set (arr_data (img_to_array im)). \<exists>b :: 8 word. v = real (unat b))
           \<and> (\<forall>v \<in> set (arr_data t). 0 \<le> v \<and> v \<le> 1)"
proof -
  from assms obtain im where im: "load_img w image_path shape = Inr im"
    using load_img_readable by blast
  then have sz: "im_size im = (snd shape, fst shape)" by (rule load_img_size)
  let ?t = "newaxis (divide_by (img_to_array im) 255)"
  have t: "fst (load_and_normalize image_path shape w) = Inr ?t"
    by (simp add: load_and_normalize_eq im)
  have shp: "arr_shape ?t = [1, fst shape, snd shape, 3]"
    by (simp add: arr_shape_tensor sz)
  have dat: "arr_data ?t = map (\<lambda>v. v / 255) (arr_data (img_to_array im))"
    by (rule arr_data_tensor)
  have len: "length (arr_data ?t) = 1 * fst shape * snd shape * 3"
    by (simp add: dat length_img_to_array sz)
  have idx: "arr_data ?t ! ((y * snd shape + x) * 3 + c) = channels (getpixel im (x, y)) ! c / 255"
    if "y < fst shape" "x < snd shape" "c < 3" for y x c
  proof -
    have eq: "(y * snd shape + x) * 3 + c = y * (fst (im_size im) * 3) + (x * 3 + c)"
      by (simp add: sz algebra_simps)
    have "x * 3 + c < snd shape * 3" using that by simp
    moreover have "Suc y * (snd shape * 3) \<le> fst shape * (snd shape * 3)"
      using that by (intro mult_le_mono1) simp
    ultimately have "y * (snd shape * 3) + (x * 3 + c) < fst shape * (snd shape * 3)"
      by simp
    then have "(y * snd shape + x) * 3 + c < length (arr_data (img_to_array im))"
      by (simp add: length_img_to_array sz algebra_simps)
    then have "arr_data ?t ! ((y * snd shape + x) * 3 + c) =
               arr_data (img_to_array im) ! ((y * snd shape + x) * 3 + c) / 255"
      by (simp add: dat)
    moreover have "arr_data (img_to_array im) ! (y * (fst (im_size im) * 3) + (x * 3 + c)) =
               channels (getpixel im (x, y)) ! c"
      using that by (intro nth_img_to_array) (simp_all add: sz)
    then have "arr_data (img_to_array im) ! ((y * snd shape + x) * 3 + c) =
               channels (getpixel im (x, y)) ! c"
      by (simp only: eq)
    ultimately show ?thesis by simp
  qed
  have byt: "\<forall>v \<in> set (arr_data (img_to_array im)). \<exists>b :: 8 word. v = real (unat b)"
    using img_to_array_byte by blast
  have rng: "\<forall>v \<in> set (arr_data ?t). 0 \<le> v \<and> v \<le> 1"
    using tensor_unit_interval by blast
  from t im sz shp len dat idx byt rng show ?thesis by blast
qed

text \<open>
  Claim C4 as stated reads the target as (width, height) and promises the shape
  (1, height, width, 3). For the target (2, 1), width 2 and height 1, that would be
  (1, 1, 2, 3); the loader returns a tensor of shape (1, 2, 1, 3).
\<close>

theorem loader_shape_counterexample:
  "map_sum id arr_shape (fst (load_and_normalize ''./Testing/scan.png'' (2, 1) (clinic 0.6 0.2)))
     = Inr [1, 2, 1, 3]"
  by (simp add: load_and_normalize_eq clinic_load arr_shape_tensor)

text \<open>
  The amended statement at the one-pixel image and the shape (2, 1).
\<close>

theorem loader_contract_witness:
  "image_files (clinic 0.6 0.2) ''./Testing/scan.png'' = Some (Decoded one_pixel)
   \<and> (\<exists>t. fst (load_and_normalize ''./Testing/scan.png'' (2, 1) (clinic 0.6 0.2)) = Inr t
        \<and> arr_shape t = [1, 2, 1, 3] \<and> length (arr_data t) = 6
        \<and> (\<forall>v \<in> set (arr_data t). 0 \<le> v \<and> v \<le> 1))"
proof -
  have f: "image_files (clinic 0.6 0.2) ''./Testing/scan.png'' = Some (Decoded one_pixel)"
    by (simp add: clinic_def)
  from loader_contract [OF f, of "(2, 1)"] f show ?thesis
    by auto
qed




text \<open>
  Claim C6, amended. For every image path with no file, or with something that cannot
  be read or decoded as an image, \<open>diagnose\<close> never returns a label. When the first
  model file loads it raises the input error of the image load (an exception of the
  \<open>OSError\<close> family, \<open>FileNotFoundError\<close> when there is no file), which differs from
  every exception of the model calls. When the first model file is missing or malformed
  it raises the model-load error instead, since \<open>predict\<close> builds the interpreter
  before it reads the image. \<open>run_diagnosis\<close> then displays no label.
\<close>

theorem image_error_surfaces:
  assumes "image_files w image_path = None \<or> image_files w image_path = Some (Unloadable x)"
  shows "(model_files w model_1_path \<noteq> None \<longrightarrow>
            fst (diagnose image_path w) =
              Inl (InputError (if image_files w image_path = None then FileNotFoundError else x)))
     \<and> (model_files w model_1_path = None \<longrightarrow>
            fst (diagnose image_path w) = Inl ValueError_model)
     \<and> (\<forall>label. fst (diagnose image_path w) \<noteq> Inr label)
     \<and> (\<forall>e. InputError e \<notin> {ValueError_model, ValueError_resize, ValueError_set_tensor,
                               RuntimeError_invoke, ValueError_get_tensor})
     \<and> fst (run_diagnosis image_path u w) = u"
proof -
  let ?e = "InputError (if image_files w image_path = None then FileNotFoundError else x)"
  have l: "fst (load_and_normalize image_path shape1 w) = Inl ?e"
    using assms by (auto simp: load_and_normalize_eq load_img_def)
  have p: "fst (predict image_path shape1 model_1_path w) =
           Inl (if model_files w model_1_path = None then ValueError_model else ?e)"
    by (simp add: predict_eq l split: option.splits)
  have d: "fst (diagnose image_path w) =
           Inl (if model_files w model_1_path = None then ValueError_model else ?e)"
    by (simp add: diagnose_eq p)
  have r: "fst (run_diagnosis image_path u w) = u"
    using d by (cases "diagnose image_path w") (simp add: run_diagnosis_def)
  from d r show ?thesis by simp
qed

text \<open>
  Claim C6 as stated promises an image-input error for every missing image path. In the
  world without any file the image is missing and \<open>diagnose\<close> raises the model-load
  error instead.
\<close>

theorem image_error_counterexample:
  "image_files bare ''./Testing/scan.png'' = None
   \<and> fst (diagnose ''./Testing/scan.png'' bare) = Inl ValueError_model"
  by (simp add: diagnose_eq predict_eq) (simp add: bare_def)

text \<open>
  The amended statement in the world whose model files load, for a missing image and for
  a directory at the image path.
\<close>

theorem image_error_surfaces_witness:
  "image_files (clinic 0.6 0.2) ''./Testing/missing.png'' = None
   \<and> fst (diagnose ''./Testing/missing.png'' (clinic 0.6 0.2)) = Inl (InputError FileNotFoundError)
   \<and> fst (run_diagnosis ''./Testing/missing.png'' (display_loading blank) (clinic 0.6 0.2))
       = display_loading blank
   \<and> image_files (clinic 0.6 0.2) ''./Testing'' = Some (Unloadable IsADirectoryError)
   \<and> fst (diagnose ''./Testing'' (clinic 0.6 0.2)) = Inl (InputError IsADirectoryError)"
proof -
  have f: "image_files (clinic 0.6 0.2) ''./Testing/missing.png'' = None"
    by (simp add: clinic_def)
  have g: "image_files (clinic 0.6 0.2) ''./Testing'' = Some (Unloadable IsADirectoryError)"
    by (simp add: clinic_def)
  have m: "model_files (clinic 0.6 0.2) model_1_path \<noteq> None"
    by (simp add: clinic_def)
  from image_error_surfaces [of "clinic 0.6 0.2" "''./Testing/missing.png''" FileNotFoundError
         "display_loading blank"]
       image_error_surfaces [of "clinic 0.6 0.2" "''./Testing''" IsADirectoryError
         "display_loading blank"]
    f g m show ?thesis by simp
qed

text \<open>
  Claim C7. Whenever \<open>diagnose\<close> returns, the value is one of \<open>'n'\<close>, \<open>'b'\<close>,
  \<open>'m'\<close>; the chain of comparisons in \<open>run_diagnosis\<close> then never reaches its
  \<open>'Error'\<close> branch, and the text displayed is Normal, Benign or Malignant.
\<close>

theorem diagnose_labels:
  "fst (diagnose image_path w) = Inr r \<Longrightarrow>
   (r = ''n'' \<or> r = ''b'' \<or> r = ''m'') \<and> result_text r \<noteq> ''Error''
   \<and> output_text (fst (run_diagnosis image_path u w)) \<in> {''Normal'', ''Benign'', ''Malignant''}"
  by (auto simp: diagnose_eq run_diagnosis_def result_text_def display_output_def
           split: sum.splits if_splits prod.splits)

text \<open>
  The theorem in the world where model 1 yields 0.6.
\<close>

theorem diagnose_labels_witness:
  "fst (diagnose ''./Testing/scan.png'' (clinic 0.6 0.2)) = Inr ''n''
   \<and> result_text ''n'' \<noteq> ''Error''
   \<and> output_text (fst (run_diagnosis ''./Testing/scan.png'' blank (clinic 0.6 0.2)))
        \<in> {''Normal'', ''Benign'', ''Malignant''}"
proof -
  have d: "fst (diagnose ''./Testing/scan.png'' (clinic 0.6 0.2)) = Inr ''n''"
    by (rule diagnose_normal [OF clinic_yields1]) simp
  from diagnose_labels [OF d, of blank] d show ?thesis by simp
qed

text \<open>
  Claim C8. Whenever a tensor is set into model 2 during \<open>diagnose\<close>, it is made from
  what \<open>load_img\<close> returns for the same image path at \<open>shape2\<close> = 299 x 299: the
  image decoded from the file at that path, itself when it already measures 299 x 299
  and otherwise that image resampled to 299 x 299. The tensor has shape
  (1, 299, 299, 3), and its element at (0, y, x, c) is channel c of the pixel (x, y) of
  that image divided by 255. The stage-1 tensor is made in the same way from the same
  file at \<open>shape1\<close> = 224 x 224, has shape (1, 224, 224, 3) and is a different array;
  the stage-2 tensor is computed from the file's image, not from the stage-1 image or
  tensor. The calls before the tensor is set are the six calls of stage 1, then the
  construction and allocation of the second interpreter and a second \<open>load_img\<close> call
  on the same path.
\<close>

theorem stage2_fresh_load:
  assumes "SetTensor model_2_path t2 \<in> set (events_during (diagnose image_path) w)"
  shows "fst (load_and_normalize image_path shape2 w) = Inr t2
     \<and> arr_shape t2 = [1, 299, 299, 3]
     \<and> (\<exists>t1 post. fst (load_and_normalize image_path shape1 w) = Inr t1
           \<and> arr_shape t1 = [1, 224, 224, 3] \<and> t1 \<noteq> t2
           \<and> events_during (diagnose image_path) w =
               [NewInterpreter model_1_path, AllocateTensors model_1_path,
                LoadImg image_path shape1, SetTensor model_1_path t1,
                Invoke model_1_path, GetTensor model_1_path,
                NewInterpreter model_2_path, AllocateTensors model_2_path,
                LoadImg image_path shape2, SetTensor model_2_path t2] @ post)
     \<and> (\<exists>img im1 im2.
           image_files w image_path = Some (Decoded img)
           \<and> im2 = (if im_size img = (299, 299) then img
                    else \<lparr>im_size = (299, 299), getpixel = nearest w img (299, 299)\<rparr>)
           \<and> load_img w image_path shape2 = Inr im2
           \<and> t2 = newaxis (divide_by (img_to_array im2) 255)
           \<and> length (arr_data t2) = 299 * 299 * 3
           \<and> (\<forall>y < 299. \<forall>x < 299. \<forall>c < 3.
                 arr_data t2 ! ((y * 299 + x) * 3 + c) = channels (getpixel im2 (x, y)) ! c / 255)
           \<and> im1 = (if im_size img = (224, 224) then img
                    else \<lparr>im_size = (224, 224), getpixel = nearest w img (224, 224)\<rparr>)
           \<and> load_img w image_path shape1 = Inr im1
           \<and> SetTensor model_1_path (newaxis (divide_by (img_to_array im1) 255))
                \<in> set (events_during (diagnose image_path) w))"
proof -
  let ?ev1 = "predict_events w image_path shape1 model_1_path"
  let ?ev2 = "predict_events w image_path shape2 model_2_path"
  have not1: "SetTensor model_2_path t2 \<notin> set ?ev1"
    using predict_events_set_tensor [of model_2_path t2 w image_path shape1 model_1_path]
    by auto
  with assms have c0: "fst (predict image_path shape1 model_1_path w) = Inr 0"
    and in2: "SetTensor model_2_path t2 \<in> set ?ev2"
    by (auto simp: events_diagnose split: if_splits)
  from in2 obtain post where t2: "fst (load_and_normalize image_path shape2 w) = Inr t2"
    and ev2: "?ev2 = [NewInterpreter model_2_path, AllocateTensors model_2_path,
                      LoadImg image_path shape2, SetTensor model_2_path t2] @ post"
    using predict_events_set_tensor by blast
  from c0 obtain t1 where t1: "fst (load_and_normalize image_path shape1 w) = Inr t1"
    and ev1: "?ev1 = [NewInterpreter model_1_path, AllocateTensors model_1_path,
                      LoadImg image_path shape1, SetTensor model_1_path t1,
                      Invoke model_1_path, GetTensor model_1_path]"
    using predict_events_class by blast
  have s1: "arr_shape t1 = [1, 224, 224, 3]"
    using tensor_shape [OF t1] by (simp add: shape1_def)
  have s2: "arr_shape t2 = [1, 299, 299, 3]"
    using tensor_shape [OF t2] by (simp add: shape2_def)
  from s1 s2 have ne: "t1 \<noteq> t2" by auto
  have evs: "events_during (diagnose image_path) w = ?ev1 @ ?ev2"
    by (simp add: events_diagnose c0)
  with ev1 ev2 have full: "events_during (diagnose image_path) w =
               [NewInterpreter model_1_path, AllocateTensors model_1_path,
                LoadImg image_path shape1, SetTensor model_1_path t1,
                Invoke model_1_path, GetTensor model_1_path,
                NewInterpreter model_2_path, AllocateTensors model_2_path,
                LoadImg image_path shape2, SetTensor model_2_path t2] @ post"
    by simp
  from t2 obtain im2 where l2: "load_img w image_path shape2 = Inr im2"
    and d2: "t2 = newaxis (divide_by (img_to_array im2) 255)"
    by (cases "load_img w image_path shape2") (auto simp: load_and_normalize_eq)
  from t1 obtain im1 where l1: "load_img w image_path shape1 = Inr im1"
    and d1: "t1 = newaxis (divide_by (img_to_array im1) 255)"
    by (cases "load_img w image_path shape1") (auto simp: load_and_normalize_eq)
  from l2 obtain img where img: "image_files w image_path = Some (Decoded img)"
    by (auto simp: load_img_def split: option.splits disk_file.splits)
  from l2 img have i2: "im2 = (if im_size img = (299, 299) then img
                    else \<lparr>im_size = (299, 299), getpixel = nearest w img (299, 299)\<rparr>)"
    by (auto simp: load_img_def Let_def shape2_def split: if_splits)
  from l1 img have i1: "im1 = (if im_size img = (224, 224) then img
                    else \<lparr>im_size = (224, 224), getpixel = nearest w img (224, 224)\<rparr>)"
    by (auto simp: load_img_def Let_def shape1_def split: if_splits)
  have sz2: "im_size im2 = (299, 299)"
    using load_img_size [OF l2] by (simp add: shape2_def)
  have len: "length (arr_data t2) = 299 * 299 * 3"
    by (simp add: d2 arr_data_tensor length_img_to_array sz2)
  have idx: "\<forall>y < 299. \<forall>x < 299. \<forall>c < 3.
        arr_data t2 ! ((y * 299 + x) * 3 + c) = channels (getpixel im2 (x, y)) ! c / 255"
  proof (intro allI impI)
    fix y x c :: nat
    assume "y < 299" "x < 299" "c < 3"
    then show "arr_data t2 ! ((y * 299 + x) * 3 + c) = channels (getpixel im2 (x, y)) ! c / 255"
      using tensor_nth [of y im2 x c] by (simp add: d2 sz2)
  qed
  have set1: "SetTensor model_1_path (newaxis (divide_by (img_to_array im1) 255))
                \<in> set (events_during (diagnose image_path) w)"
    by (simp add: full d1)
  from t2 s2 t1 s1 ne full have first: "fst (load_and_normalize image_path shape2 w) = Inr t2
     \<and> arr_shape t2 = [1, 299, 299, 3]
     \<and> (\<exists>t1 post. fst (load_and_normalize image_path shape1 w) = Inr t1
           \<and> arr_shape t1 = [1, 224, 224, 3] \<and> t1 \<noteq> t2
           \<and> events_during (diagnose image_path) w =
               [NewInterpreter model_1_path, AllocateTensors model_1_path,
                LoadImg image_path shape1, SetTensor model_1_path t1,
                Invoke model_1_path, GetTensor model_1_path,
                NewInterpreter model_2_path, AllocateTensors model_2_path,
                LoadImg image_path shape2, SetTensor model_2_path t2] @ post)"
    by blast
  from img i2 l2 d2 len idx i1 l1 set1 have second: "\<exists>img im1 im2.
           image_files w image_path = Some (Decoded img)
           \<and> im2 = (if im_size img = (299, 299) then img
                    else \<lparr>im_size = (299, 299), getpixel = nearest w img (299, 299)\<rparr>)
           \<and> load_img w image_path shape2 = Inr im2
           \<and> t2 = newaxis (divide_by (img_to_array im2) 255)
           \<and> length (arr_data t2) = 299 * 299 * 3
           \<and> (\<forall>y < 299. \<forall>x < 299. \<forall>c < 3.
                 arr_data t2 ! ((y * 299 + x) * 3 + c) = channels (getpixel im2 (x, y)) ! c / 255)
           \<and> im1 = (if im_size img = (224, 224) then img
                    else \<lparr>im_size = (224, 224), getpixel = nearest w img (224, 224)\<rparr>)
           \<and> load_img w image_path shape1 = Inr im1
           \<and> SetTensor model_1_path (newaxis (divide_by (img_to_array im1) 255))
                \<in> set (events_during (diagnose image_path) w)"
    by blast
  from first second show ?thesis by blast
qed

text \<open>
  The theorem in a world that tells a fresh load from a reuse of stage 1: the file holds
  a 299 x 299 image with one pixel, at (3, 0), of a colour of its own, and the resampling
  to 224 x 224 skips that pixel. The stage-2 tensor is made from the file's image itself
  and holds the pixel's red value, 10 / 255, at (0, 0, 3, 0); no element of the stage-1
  tensor has that value.
\<close>

theorem stage2_fresh_load_witness:
  "\<exists>t1 t2. SetTensor model_1_path t1
            \<in> set (events_during (diagnose ''./Testing/scan.png'') (ward 0.3 0.2))
      \<and> SetTensor model_2_path t2
            \<in> set (events_during (diagnose ''./Testing/scan.png'') (ward 0.3 0.2))
      \<and> t2 = newaxis (divide_by (img_to_array speckled) 255)
      \<and> arr_shape t2 = [1, 299, 299, 3]
      \<and> arr_data t2 ! 9 = 10 / 255
      \<and> 10 / 255 \<notin> set (arr_data t1)"
proof -
  obtain t2 where t: "SetTensor model_2_path t2
          \<in> set (events_during (diagnose ''./Testing/scan.png'') (ward 0.3 0.2))"
    using ward_stage2_tensor [of "0.3" "0.2"] by auto
  from stage2_fresh_load [OF t] obtain img im1 im2 where
        f: "image_files (ward 0.3 0.2) ''./Testing/scan.png'' = Some (Decoded img)"
    and i2: "im2 = (if im_size img = (299, 299) then img
                    else \<lparr>im_size = (299, 299), getpixel = nearest (ward 0.3 0.2) img (299, 299)\<rparr>)"
    and d2: "t2 = newaxis (divide_by (img_to_array im2) 255)"
    and s2: "arr_shape t2 = [1, 299, 299, 3]"
    and idx: "\<forall>y < 299. \<forall>x < 299. \<forall>c < 3.
                 arr_data t2 ! ((y * 299 + x) * 3 + c) = channels (getpixel im2 (x, y)) ! c / 255"
    and i1: "im1 = (if im_size img = (224, 224) then img
                    else \<lparr>im_size = (224, 224), getpixel = nearest (ward 0.3 0.2) img (224, 224)\<rparr>)"
    and e1: "SetTensor model_1_path (newaxis (divide_by (img_to_array im1) 255))
                \<in> set (events_during (diagnose ''./Testing/scan.png'') (ward 0.3 0.2))"
    by blast
  from f have img: "img = speckled" by (simp add: ward_def)
  from i2 img have im2: "im2 = speckled" by (simp add: speckled_def)
  from i1 img have im1: "im1 = \<lparr>im_size = (224, 224), getpixel = floor_nearest speckled (224, 224)\<rparr>"
    by (simp add: speckled_def ward_def)
  have n: "arr_data t2 ! 9 = 10 / 255"
    using idx [rule_format, of 0 3 0] by (simp add: im2 speckled_def channels_def)
  have "10 / 255 \<notin> set (arr_data (newaxis (divide_by (img_to_array im1) 255)))"
    using coarse_values [of 10] by (auto simp: arr_data_tensor im1)
  with e1 t d2 s2 n im2 show ?thesis by blast
qed

text \<open>
  Claim C10. In every \<open>predict\<close> call the image is loaded only after the interpreter
  has been constructed and its tensors allocated: when \<open>load_img\<close> is called at all,
  the model file has loaded and the first three library calls are the construction, the
  allocation and the image load, in this order. When the model file is missing or
  malformed, the call raises the model-load error whatever lies at the image path, and
  the construction of the interpreter is its only library call.
\<close>

theorem model_load_first:
  "(LoadImg image_path shape \<in> set (events_during (predict image_path shape model_path) w) \<longrightarrow>
      model_files w model_path \<noteq> None \<and>
      take 3 (events_during (predict image_path shape model_path) w) =
        [NewInterpreter model_path, AllocateTensors model_path, LoadImg image_path shape])
   \<and> (model_files w model_path = None \<longrightarrow>
      fst (predict image_path shape model_path w) = Inl ValueError_model \<and>
      events_during (predict image_path shape model_path) w = [NewInterpreter model_path])"
  by (auto simp: events_predict predict_events_def predict_eq split: option.splits)

text \<open>
  The theorem in the world without any file (model and image both missing), and in a
  world whose model file loads.
\<close>

theorem model_load_first_witness:
  "model_files bare model_1_path = None
   \<and> image_files bare ''./Testing/scan.png'' = None
   \<and> fst (predict ''./Testing/scan.png'' shape1 model_1_path bare) = Inl ValueError_model
   \<and> events_during (predict ''./Testing/scan.png'' shape1 model_1_path) bare
        = [NewInterpreter model_1_path]
   \<and> LoadImg ''./Testing/scan.png'' shape1
        \<in> set (events_during (predict ''./Testing/scan.png'' shape1 model_1_path) (clinic 0.6 0.2))
   \<and> take 3 (events_during (predict ''./Testing/scan.png'' shape1 model_1_path) (clinic 0.6 0.2))
        = [NewInterpreter model_1_path, AllocateTensors model_1_path,
           LoadImg ''./Testing/scan.png'' shape1]"
proof -
  have m: "model_files bare model_1_path = None" and i: "image_files bare ''./Testing/scan.png'' = None"
    by (simp_all add: bare_def)
  have "model_files (clinic 0.6 0.2) model_1_path \<noteq> None"
    by (simp add: clinic_def)
  then have l: "LoadImg ''./Testing/scan.png'' shape1
        \<in> set (events_during (predict ''./Testing/scan.png'' shape1 model_1_path) (clinic 0.6 0.2))"
    by (auto simp: events_predict predict_events_def)
  from model_load_first [of "''./Testing/scan.png''" shape1 model_1_path bare]
       model_load_first [of "''./Testing/scan.png''" shape1 model_1_path "clinic 0.6 0.2"]
       m i l
  show ?thesis by blast
qed

end
